theory Spec2Isabelle
  imports Complex_Main "HOL-Library.Sublist"
begin

section \<open>The voice assistant controller (class AIVoiceAssistant)\<close>

text \<open>
  A shallow embedding of the browser-side controller. A JavaScript string is a
  \<^typ>\<open>string\<close> with one \<^typ>\<open>char\<close> for each UTF-16 code unit, so the embedding covers
  the strings whose code units are below 256 (ASCII and Latin-1); \<open>length\<close> is then
  the \<open>.length\<close> of the source. A value that JSON or a property access can produce
  is a \<open>jsval\<close>, a number being given by its value. Every \<open>throw\<close> and every rejected promise is the \<open>Inl\<close> branch of a
  sum; every awaited promise is taken to settle, fulfilled or rejected.
\<close>

subsection \<open>JavaScript values and errors\<close>

datatype jsval =
    Undefined
  | Null
  | Bool bool
  | Num rat
  | Str string
  | Arr "jsval list"
  | Obj "(string \<times> jsval) list"

datatype error =
    TypeError
  | SyntaxError
  | HttpError nat
  | NetworkError
  | RecognitionError string
  | PageError

text \<open>Truthiness, as \<open>if (v)\<close>, \<open>v || w\<close> and \<open>v && w\<close> test it.\<close>

fun truthy :: "jsval \<Rightarrow> bool" where
  "truthy Undefined = False"
| "truthy Null = False"
| "truthy (Bool b) = b"
| "truthy (Num n) = (n \<noteq> 0)"
| "truthy (Str s) = (s \<noteq> [])"
| "truthy (Arr xs) = True"
| "truthy (Obj kvs) = True"

definition js_or :: "jsval \<Rightarrow> jsval \<Rightarrow> jsval" where
  "js_or a b = (if truthy a then a else b)"

text \<open>
  Reading one of the properties \<open>text\<close> and \<open>generated_text\<close>: on \<open>null\<close> and
  \<open>undefined\<close> the access throws a TypeError, on an object it is the own property
  (the list holds the parsed object's properties, each key once), on every other
  value it is \<open>undefined\<close>.
\<close>

fun get_prop :: "jsval \<Rightarrow> string \<Rightarrow> error + jsval" where
  "get_prop Undefined k = Inl TypeError"
| "get_prop Null k = Inl TypeError"
| "get_prop (Obj kvs) k = Inr (case map_of kvs k of None \<Rightarrow> Undefined | Some v \<Rightarrow> v)"
| "get_prop (Bool b) k = Inr Undefined"
| "get_prop (Num n) k = Inr Undefined"
| "get_prop (Str s) k = Inr Undefined"
| "get_prop (Arr xs) k = Inr Undefined"

text \<open>Reading \<open>v[0]\<close>: the first element of an array, the first code unit of a
  string, the property \<open>"0"\<close> of an object.\<close>

fun get_index0 :: "jsval \<Rightarrow> error + jsval" where
  "get_index0 Undefined = Inl TypeError"
| "get_index0 Null = Inl TypeError"
| "get_index0 (Arr xs) = Inr (case xs of [] \<Rightarrow> Undefined | x # _ \<Rightarrow> x)"
| "get_index0 (Str s) = Inr (case s of [] \<Rightarrow> Undefined | c # _ \<Rightarrow> Str [c])"
| "get_index0 (Obj kvs) = Inr (case map_of kvs ''0'' of None \<Rightarrow> Undefined | Some v \<Rightarrow> v)"
| "get_index0 (Bool b) = Inr Undefined"
| "get_index0 (Num n) = Inr Undefined"

text \<open>The value of \<open>Array.isArray(v) && v[0]\<close>: \<open>false\<close> when \<open>v\<close> is not an array, else
  its first element, \<open>undefined\<close> when it has none.\<close>

definition arrayHead :: "jsval \<Rightarrow> jsval" where
  "arrayHead v =
     (case v of
        Arr xs \<Rightarrow> (case xs of [] \<Rightarrow> Undefined | x # _ \<Rightarrow> x)
      | _ \<Rightarrow> Bool False)"

text \<open>\<open>xs[i]\<close> on an array of strings: \<open>undefined\<close> out of range.\<close>

definition js_index :: "string list \<Rightarrow> int \<Rightarrow> jsval" where
  "js_index xs i = (if 0 \<le> i \<and> i < int (length xs) then Str (xs ! nat i) else Undefined)"

subsection \<open>String methods\<close>

text \<open>\<open>toLowerCase\<close> on code units below 256: A-Z and the Latin-1 capitals
  (U+00C0 to U+00DE without the multiplication sign U+00D7) move up by 32.\<close>

definition lowerChar :: "char \<Rightarrow> char" where
  "lowerChar c =
     (let n = (of_char c :: nat)
      in if (65 \<le> n \<and> n \<le> 90) \<or> (192 \<le> n \<and> n \<le> 222 \<and> n \<noteq> 215)
         then char_of (n + 32) else c)"

definition toLowerCase :: "string \<Rightarrow> string" where
  "toLowerCase s = map lowerChar s"

text \<open>\<open>message.toLowerCase()\<close> on a value that is not a string throws a TypeError
  (no JSON value other than a string has a callable \<open>toLowerCase\<close>).\<close>

fun toLowerCase_js :: "jsval \<Rightarrow> error + string" where
  "toLowerCase_js (Str s) = Inr (toLowerCase s)"
| "toLowerCase_js v = Inl TypeError"

text \<open>\<open>s.includes(t)\<close>, \<open>s.startsWith(t)\<close>, \<open>s.endsWith(t)\<close>.\<close>

definition startsWith :: "string \<Rightarrow> string \<Rightarrow> bool" where
  "startsWith s t = (take (length t) s = t)"

fun includes_str :: "string \<Rightarrow> string \<Rightarrow> bool" where
  "includes_str [] t = (t = [])"
| "includes_str (c # cs) t = (if startsWith (c # cs) t then True else includes_str cs t)"

definition endsWith :: "string \<Rightarrow> string \<Rightarrow> bool" where
  "endsWith s t = startsWith (rev s) (rev t)"

text \<open>\<open>trim\<close>: the white space and line terminators below 256 are TAB, LF, VT, FF,
  CR, SP and NBSP.\<close>

definition isWhiteSpace :: "char \<Rightarrow> bool" where
  "isWhiteSpace c = ((of_char c :: nat) \<in> {9, 10, 11, 12, 13, 32, 160})"

definition trim :: "string \<Rightarrow> string" where
  "trim s = rev (dropWhile isWhiteSpace (rev (dropWhile isWhiteSpace s)))"

definition isLineTerminator :: "char \<Rightarrow> bool" where
  "isLineTerminator c = ((of_char c :: nat) \<in> {10, 13})"

subsection \<open>enhanceResponse and getFallbackResponse\<close>

text \<open>
  \<open>aiResponse.replace(/^(You are an empathetic|Assistant:|User:).*$/gm, '')\<close>.
  With the flags \<open>g\<close> and \<open>m\<close>, \<open>^\<close> holds at the start of the input and after a
  line terminator, \<open>.*\<close> runs to the end of the line, and every match is replaced
  by the empty string: each line that starts with one of the three prefixes
  loses its text and keeps its terminator. The flag says whether \<open>^\<close> holds at the
  current position.
\<close>

definition promptEcho :: "string \<Rightarrow> bool" where
  "promptEcho s =
     (startsWith s ''You are an empathetic'' \<or> startsWith s ''Assistant:'' \<or> startsWith s ''User:'')"

function stripPromptLines :: "bool \<Rightarrow> string \<Rightarrow> string" where
  "stripPromptLines atStart [] = []"
| "stripPromptLines atStart (c # cs) =
     (if atStart \<and> promptEcho (c # cs)
      then stripPromptLines False (dropWhile (\<lambda>x. \<not> isLineTerminator x) cs)
      else c # stripPromptLines (isLineTerminator c) cs)"
  by pat_completeness auto
termination
  by (relation "measure (\<lambda>(b, s). length s)")
     (auto intro: le_imp_less_Suc length_dropWhile_le)

datatype category = Anxiety | Stress | Depression | Default

fun responses :: "category \<Rightarrow> string list" where
  "responses Anxiety =
     [''I understand that anxiety can feel overwhelming, especially as a student. Would you like to try a quick breathing exercise together?'',
      ''Anxiety is very common among students. What specific situation is making you feel anxious right now?'',
      ''I hear that you're feeling anxious. Remember, these feelings are temporary. Let's talk about some coping strategies.'']"
| "responses Stress =
     [''Student life can be incredibly stressful. What's the biggest source of stress for you right now?'',
      ''I can sense you're feeling stressed. Sometimes breaking things down into smaller, manageable steps helps. What's on your mind?'',
      ''Stress is a normal part of student life, but it doesn't have to overwhelm you. Let's work through this together.'']"
| "responses Depression =
     [''I'm sorry you're going through a difficult time. These feelings are valid, and you don't have to face them alone.'',
      ''Depression can make everything feel harder, especially balancing studies and personal life. Have you been able to talk to anyone about how you're feeling?'',
      ''Thank you for sharing something so personal with me. Remember that seeking help is a sign of strength, not weakness.'']"
| "responses Default =
     [''I'm here to listen and support you. Can you tell me more about what's on your mind?'',
      ''It sounds like you're going through something challenging. I'm here to help however I can.'',
      ''Thank you for reaching out. Sometimes just talking about what we're feeling can be really helpful. What would you like to share?'']"

text \<open>The \<open>if\<close>/\<open>else if\<close> chain of getFallbackResponse on the lower-cased message.\<close>

definition categoryOf :: "string \<Rightarrow> category" where
  "categoryOf lowerMessage =
     (if includes_str lowerMessage ''anxious'' \<or> includes_str lowerMessage ''anxiety''
         \<or> includes_str lowerMessage ''worried'' then Anxiety
      else if includes_str lowerMessage ''stress'' \<or> includes_str lowerMessage ''overwhelmed''
         \<or> includes_str lowerMessage ''pressure'' then Stress
      else if includes_str lowerMessage ''sad'' \<or> includes_str lowerMessage ''depressed''
         \<or> includes_str lowerMessage ''hopeless'' then Depression
      else Default)"

text \<open>
  \<open>categoryResponses[Math.floor(Math.random() * categoryResponses.length)]\<close>: the
  first argument is the value that \<open>Math.random()\<close> returns at this call, a number
  \<open>u\<close> with \<open>0 \<le> u < 1\<close>; the product is taken exactly (rounded to a double it
  stays below the length as well).
\<close>

definition getFallbackResponse :: "rat \<Rightarrow> jsval \<Rightarrow> error + jsval" where
  "getFallbackResponse u message =
     (case toLowerCase_js message of
        Inl e \<Rightarrow> Inl e
      | Inr lowerMessage \<Rightarrow>
          (let categoryResponses = responses (categoryOf lowerMessage)
           in Inr (js_index categoryResponses \<lfloor>u * of_nat (length categoryResponses)\<rfloor>)))"

definition seriousTopics :: "string list" where
  "seriousTopics = [''suicide'', ''self-harm'', ''hopeless'', ''crisis'', ''emergency'']"

definition crisisSentence :: string where
  "crisisSentence = '' Remember, if you're having thoughts of self-harm, please reach out immediately to a crisis helpline or emergency services.''"

definition cleanResponse :: "string \<Rightarrow> string" where
  "cleanResponse aiResponse = trim (stripPromptLines True aiResponse)"

definition enhanceResponse :: "rat \<Rightarrow> string \<Rightarrow> jsval \<Rightarrow> error + jsval" where
  "enhanceResponse u aiResponse userMessage =
     (if length (cleanResponse aiResponse) < 20 then getFallbackResponse u userMessage
      else
        (let enhanced =
               (if \<not> endsWith (cleanResponse aiResponse) ''.''
                   \<and> \<not> endsWith (cleanResponse aiResponse) ''!''
                   \<and> \<not> endsWith (cleanResponse aiResponse) ''?''
                then cleanResponse aiResponse @ ''.'' else cleanResponse aiResponse)
         in case toLowerCase_js userMessage of
              Inl e \<Rightarrow> Inl e
            | Inr lowerMessage \<Rightarrow>
                Inr (Str (if list_ex (\<lambda>topic. includes_str lowerMessage topic) seriousTopics
                          then enhanced @ crisisSentence else enhanced))))"

subsection \<open>generateAIResponse\<close>

text \<open>What \<open>fetch\<close> and the reading of the body give: the promise rejects, or a
  response arrives with its status and a body that parses (\<open>Some\<close>) or not.\<close>

datatype 'b fetch_result = FetchRejects | Response nat "'b option"

definition ok :: "nat \<Rightarrow> bool" where
  "ok status = (200 \<le> status \<and> status \<le> 299)"

text \<open>The environment of one call of generateAIResponse: the outcome of its
  request and the value of \<open>Math.random()\<close> at each of the three places that call
  getFallbackResponse.\<close>

record gen_env =
  gen_fetch :: "jsval fetch_result"
  rnd_short :: rat
  rnd_empty :: rat
  rnd_catch :: rat

text \<open>The extraction of the generated text from the parsed body; inside the
  first branch \<open>result[0]\<close> is the value the condition has found truthy.\<close>

definition extractGenerated :: "jsval \<Rightarrow> error + jsval" where
  "extractGenerated result =
     (if truthy (arrayHead result) then
        (case get_prop (arrayHead result) ''generated_text'' of
           Inl e \<Rightarrow> Inl e
         | Inr g \<Rightarrow>
             if truthy g then Inr g
             else (case get_prop (arrayHead result) ''text'' of
                     Inl e \<Rightarrow> Inl e
                   | Inr t \<Rightarrow> Inr (js_or t (Str []))))
      else
        (case get_prop result ''generated_text'' of
           Inl e \<Rightarrow> Inl e
         | Inr g \<Rightarrow> if truthy g then Inr g else Inr (Str [])))"

text \<open>The body of the \<open>try\<close> block; \<open>aiResponse.trim()\<close> throws a TypeError when the
  extracted value is not a string.\<close>

definition generateAIResponse_try :: "gen_env \<Rightarrow> jsval \<Rightarrow> error + jsval" where
  "generateAIResponse_try env message =
     (case gen_fetch env of
        FetchRejects \<Rightarrow> Inl NetworkError
      | Response status body \<Rightarrow>
          if \<not> ok status then Inl (HttpError status)
          else
            (case body of
               None \<Rightarrow> Inl SyntaxError
             | Some result \<Rightarrow>
                 (case extractGenerated result of
                    Inl e \<Rightarrow> Inl e
                  | Inr (Str a) \<Rightarrow>
                      (case enhanceResponse (rnd_short env) (trim a) message of
                         Inl e \<Rightarrow> Inl e
                       | Inr r \<Rightarrow>
                           if truthy r then Inr r
                           else getFallbackResponse (rnd_empty env) message)
                  | Inr _ \<Rightarrow> Inl TypeError)))"

definition generateAIResponse :: "gen_env \<Rightarrow> jsval \<Rightarrow> error + jsval" where
  "generateAIResponse env message =
     (case generateAIResponse_try env message of
        Inl e \<Rightarrow> getFallbackResponse (rnd_catch env) message
      | Inr r \<Rightarrow> Inr r)"

subsection \<open>The controller and the page\<close>

text \<open>
  The fields of the controller, the page elements it reads and writes (an element
  that the page does not have is \<open>None\<close>, as \<open>getElementById\<close> gives \<open>null\<close>), the chat
  messages handed to the page and the calls made to the network and the device,
  in order. A recorded chunk is the list of its bytes. Console output is left out.
\<close>

datatype sender = User | Bot

record element =
  textContent :: string
  display :: string

record button =
  disabled :: bool
  listeningClass :: bool

type_synonym blob = "nat list"

datatype call =
    GetUserMedia
  | RecorderStart nat
  | RecorderStop nat
  | FetchSpeechToText blob
  | RecognitionStart string
  | FetchTextGeneration jsval
  | FetchTextToSpeech jsval
  | SourceStart
  | SynthesisSpeak jsval string

record state =
  isListening :: bool
  isPlaying :: bool
  mediaRecorder :: "nat option"
  recorders :: nat
  audioChunks :: "blob list"
  currentLanguage :: string
  audioContext :: bool
  stream :: bool
  voiceBtn :: "button option"
  stopVoiceBtn :: "string option"
  voiceIndicator :: "string option"
  playbackIndicator :: "string option"
  processingIndicator :: "element option"
  voiceError :: "element option"
  transcript :: "(jsval \<times> sender) list"
  calls :: "call list"

text \<open>The fields as the constructor sets them, on a page that has every element,
  all of them hidden.\<close>

definition new_controller :: state where
  "new_controller =
     \<lparr>isListening = False, isPlaying = False, mediaRecorder = None, recorders = 0,
      audioChunks = [], currentLanguage = ''en'', audioContext = False, stream = False,
      voiceBtn = Some \<lparr>disabled = False, listeningClass = False\<rparr>,
      stopVoiceBtn = Some ''none'', voiceIndicator = Some ''none'',
      playbackIndicator = Some ''none'',
      processingIndicator = Some \<lparr>textContent = [], display = ''none''\<rparr>,
      voiceError = Some \<lparr>textContent = [], display = ''none''\<rparr>,
      transcript = [], calls = []\<rparr>"

definition showProcessingIndicator :: "string \<Rightarrow> state \<Rightarrow> state" where
  "showProcessingIndicator message s =
     s\<lparr>processingIndicator :=
         map_option (\<lambda>indicator. indicator\<lparr>textContent := message, display := ''block''\<rparr>)
           (processingIndicator s)\<rparr>"

definition hideProcessingIndicator :: "state \<Rightarrow> state" where
  "hideProcessingIndicator s =
     s\<lparr>processingIndicator :=
         map_option (\<lambda>indicator. indicator\<lparr>display := ''none''\<rparr>) (processingIndicator s)\<rparr>"

text \<open>showError, at the moment it returns; the timer that hides the banner five
  seconds later is a later event.\<close>

definition showError :: "string \<Rightarrow> state \<Rightarrow> state" where
  "showError message s =
     s\<lparr>voiceError :=
         map_option (\<lambda>errorDiv. errorDiv\<lparr>textContent := message, display := ''block''\<rparr>)
           (voiceError s)\<rparr>"

definition inlineBlockIf :: "bool \<Rightarrow> string" where
  "inlineBlockIf b = (if b then ''inline-block'' else ''none'')"

definition updateVoiceUI :: "bool \<Rightarrow> state \<Rightarrow> state" where
  "updateVoiceUI listening s =
     s\<lparr>voiceBtn := map_option (\<lambda>b. b\<lparr>disabled := listening, listeningClass := listening\<rparr>) (voiceBtn s),
       stopVoiceBtn := map_option (\<lambda>d. inlineBlockIf listening) (stopVoiceBtn s),
       voiceIndicator := map_option (\<lambda>d. inlineBlockIf listening) (voiceIndicator s)\<rparr>"

definition updatePlaybackUI :: "bool \<Rightarrow> state \<Rightarrow> state" where
  "updatePlaybackUI playing s =
     s\<lparr>playbackIndicator := map_option (\<lambda>d. inlineBlockIf playing) (playbackIndicator s)\<rparr>"

text \<open>
  addMessageToChat hands the message to the page: to the page's own function
  \<open>addMessage\<close> when there is one (the predicate says for which arguments that
  function throws), else to the element \<open>chatMessages\<close>, when the page has it.
\<close>

datatype chat_sink =
    GlobalAddMessage "jsval \<Rightarrow> sender \<Rightarrow> bool"
  | ChatContainer
  | NoChatContainer

definition addMessageToChat :: "chat_sink \<Rightarrow> jsval \<Rightarrow> sender \<Rightarrow> state \<Rightarrow> error + state" where
  "addMessageToChat sink text sender s =
     (case sink of
        GlobalAddMessage throws \<Rightarrow>
          if throws text sender then Inl PageError
          else Inr (s\<lparr>transcript := transcript s @ [(text, sender)]\<rparr>)
      | ChatContainer \<Rightarrow> Inr (s\<lparr>transcript := transcript s @ [(text, sender)]\<rparr>)
      | NoChatContainer \<Rightarrow> Inr s)"

definition locale_of :: "string \<Rightarrow> string" where
  "locale_of language = (if language = ''en'' then ''en-US'' else ''mr-IN'')"

subsection \<open>speechToText\<close>

text \<open>The environment of speechToText: the outcome of the request, and the
  on-device recognition: \<open>None\<close> when the window has no \<open>webkitSpeechRecognition\<close>,
  else the transcript it resolves with or the error it rejects with.\<close>

record stt_env =
  stt_fetch :: "jsval fetch_result"
  recognition :: "(error + string) option"

text \<open>\<open>result.text || (result[0] && result[0].text) || ''\<close>\<close>

definition extractText :: "jsval \<Rightarrow> error + jsval" where
  "extractText result =
     (case get_prop result ''text'' of
        Inl e \<Rightarrow> Inl e
      | Inr t \<Rightarrow>
          if truthy t then Inr t
          else
            (case get_index0 result of
               Inl e \<Rightarrow> Inl e
             | Inr r0 \<Rightarrow>
                 if truthy r0 then
                   (case get_prop r0 ''text'' of
                      Inl e \<Rightarrow> Inl e
                    | Inr t0 \<Rightarrow> Inr (js_or t0 (Str [])))
                 else Inr (js_or r0 (Str []))))"

definition speechToText_try :: "stt_env \<Rightarrow> error + jsval" where
  "speechToText_try env =
     (case stt_fetch env of
        FetchRejects \<Rightarrow> Inl NetworkError
      | Response status body \<Rightarrow>
          if \<not> ok status then Inl (HttpError status)
          else (case body of None \<Rightarrow> Inl SyntaxError | Some result \<Rightarrow> extractText result))"

text \<open>The result of speechToText and the calls it makes.\<close>

definition speechToText :: "stt_env \<Rightarrow> string \<Rightarrow> blob \<Rightarrow> (error + jsval) \<times> call list" where
  "speechToText env language audioBlob =
     (case speechToText_try env of
        Inr text \<Rightarrow> (Inr text, [FetchSpeechToText audioBlob])
      | Inl e \<Rightarrow>
          (case recognition env of
             Some outcome \<Rightarrow>
               (case outcome of Inl e' \<Rightarrow> Inl e' | Inr spoken \<Rightarrow> Inr (Str spoken),
                [FetchSpeechToText audioBlob, RecognitionStart (locale_of language)])
           | None \<Rightarrow> (Inl e, [FetchSpeechToText audioBlob])))"

subsection \<open>textToSpeech\<close>

record tts_env =
  tts_fetch :: "blob fetch_result"
  decode_ok :: bool
  has_speechSynthesis :: bool

text \<open>playAudioBuffer catches its own failures (no audio context, audio that does
  not decode), so it never rejects.\<close>

definition playAudioBuffer :: "tts_env \<Rightarrow> blob \<Rightarrow> state \<Rightarrow> state" where
  "playAudioBuffer env audioBuffer s =
     (if decode_ok env
      then (updatePlaybackUI True (s\<lparr>isPlaying := True\<rparr>))\<lparr>calls := calls s @ [SourceStart]\<rparr>
      else updatePlaybackUI False (s\<lparr>isPlaying := False\<rparr>))"

definition fallbackTextToSpeech :: "tts_env \<Rightarrow> jsval \<Rightarrow> state \<Rightarrow> state" where
  "fallbackTextToSpeech env text s =
     (if has_speechSynthesis env
      then s\<lparr>calls := calls s @ [SynthesisSpeak text (locale_of (currentLanguage s))]\<rparr>
      else s)"

definition textToSpeech :: "tts_env \<Rightarrow> jsval \<Rightarrow> state \<Rightarrow> state" where
  "textToSpeech env text s =
     (let s1 = s\<lparr>calls := calls s @ [FetchTextToSpeech text]\<rparr>
      in case tts_fetch env of
           Response status (Some audioBuffer) \<Rightarrow>
             if ok status then playAudioBuffer env audioBuffer s1
             else if has_speechSynthesis env then fallbackTextToSpeech env text s1 else s1
         | _ \<Rightarrow> if has_speechSynthesis env then fallbackTextToSpeech env text s1 else s1)"

definition on_playback_ended :: "state \<Rightarrow> state" where
  "on_playback_ended s = updatePlaybackUI False (s\<lparr>isPlaying := False\<rparr>)"

subsection \<open>processVoiceInput and sendTextMessage\<close>

record env =
  stt :: stt_env
  gen :: gen_env
  tts :: tts_env
  chat_sink :: chat_sink

definition processVoiceInput_catch :: "state \<Rightarrow> state" where
  "processVoiceInput_catch s =
     hideProcessingIndicator (showError ''Failed to process voice input'' s)"

text \<open>Each \<open>Inl\<close> branch is the \<open>catch\<close> block, entered in the state reached when the
  statement threw.\<close>

definition processVoiceInput :: "env \<Rightarrow> blob \<Rightarrow> state \<Rightarrow> state" where
  "processVoiceInput env audioBlob s =
     (let s1 = showProcessingIndicator ''Converting speech to text...'' s;
          heard = speechToText (stt env) (currentLanguage s1) audioBlob;
          s2 = s1\<lparr>calls := calls s1 @ snd heard\<rparr>
      in case fst heard of
           Inl e \<Rightarrow> processVoiceInput_catch s2
         | Inr transcription \<Rightarrow>
             if truthy transcription then
               (case addMessageToChat (chat_sink env) transcription User s2 of
                  Inl e \<Rightarrow> processVoiceInput_catch s2
                | Inr s3 \<Rightarrow>
                    (let s4 = showProcessingIndicator ''Generating response...'' s3;
                         s5 = s4\<lparr>calls := calls s4 @ [FetchTextGeneration transcription]\<rparr>
                     in case generateAIResponse (gen env) transcription of
                          Inl e \<Rightarrow> processVoiceInput_catch s5
                        | Inr aiResponse \<Rightarrow>
                            (case addMessageToChat (chat_sink env) aiResponse Bot s5 of
                               Inl e \<Rightarrow> processVoiceInput_catch s5
                             | Inr s6 \<Rightarrow>
                                 hideProcessingIndicator
                                   (textToSpeech (tts env) aiResponse
                                      (showProcessingIndicator ''Converting to speech...'' s6)))))
             else hideProcessingIndicator s2)"

definition sendTextMessage_catch :: "state \<Rightarrow> state" where
  "sendTextMessage_catch s =
     hideProcessingIndicator (showError ''Failed to generate response'' s)"

definition sendTextMessage :: "env \<Rightarrow> string \<Rightarrow> state \<Rightarrow> state" where
  "sendTextMessage env message s =
     (if trim message = [] then s
      else
        (case addMessageToChat (chat_sink env) (Str message) User s of
           Inl e \<Rightarrow> sendTextMessage_catch s
         | Inr s1 \<Rightarrow>
             (let s2 = showProcessingIndicator ''Generating response...'' s1;
                  s3 = s2\<lparr>calls := calls s2 @ [FetchTextGeneration (Str message)]\<rparr>
              in case generateAIResponse (gen env) (Str message) of
                   Inl e \<Rightarrow> sendTextMessage_catch s3
                 | Inr aiResponse \<Rightarrow>
                     (case addMessageToChat (chat_sink env) aiResponse Bot s3 of
                        Inl e \<Rightarrow> sendTextMessage_catch s3
                      | Inr s4 \<Rightarrow> hideProcessingIndicator s4))))"

subsection \<open>Recording\<close>

text \<open>What the device does when a recording starts: the audio context and the
  microphone request of initializeAudio, the constructor of the recorder and its
  \<open>start\<close>.\<close>

datatype mic_outcome = ContextFails | PermissionDenied | Granted

datatype recorder_outcome = ConstructorThrows | StartThrows | Started

record rec_env =
  mic :: mic_outcome
  recorder :: recorder_outcome

definition initializeAudio :: "mic_outcome \<Rightarrow> state \<Rightarrow> state" where
  "initializeAudio outcome s =
     (case outcome of
        ContextFails \<Rightarrow>
          showError ''Microphone access denied. Voice features will be limited.'' s
      | PermissionDenied \<Rightarrow>
          showError ''Microphone access denied. Voice features will be limited.''
            (s\<lparr>audioContext := True, calls := calls s @ [GetUserMedia]\<rparr>)
      | Granted \<Rightarrow> s\<lparr>audioContext := True, stream := True, calls := calls s @ [GetUserMedia]\<rparr>)"

text \<open>The constructor of the recorder throws on a missing stream; the buffer is
  reset before it runs.\<close>

definition startVoiceRecording :: "rec_env \<Rightarrow> state \<Rightarrow> state" where
  "startVoiceRecording env s =
     (let s1 = (if \<not> stream s then initializeAudio (mic env) s else s);
          s2 = s1\<lparr>audioChunks := []\<rparr>;
          s3 = s2\<lparr>mediaRecorder := Some (recorders s2), recorders := Suc (recorders s2)\<rparr>
      in if \<not> stream s2 then showError ''Failed to start voice recording'' s2
         else
           (case recorder env of
              ConstructorThrows \<Rightarrow> showError ''Failed to start voice recording'' s2
            | StartThrows \<Rightarrow> showError ''Failed to start voice recording'' s3
            | Started \<Rightarrow>
                updateVoiceUI True
                  (s3\<lparr>calls := calls s3 @ [RecorderStart (recorders s2)], isListening := True\<rparr>)))"

definition stopVoiceRecording :: "state \<Rightarrow> state" where
  "stopVoiceRecording s =
     (case mediaRecorder s of
        Some r \<Rightarrow>
          if isListening s
          then updateVoiceUI False (s\<lparr>calls := calls s @ [RecorderStop r], isListening := False\<rparr>)
          else s
      | None \<Rightarrow> s)"

definition toggleVoiceRecording :: "rec_env \<Rightarrow> state \<Rightarrow> state" where
  "toggleVoiceRecording env s =
     (if isListening s then stopVoiceRecording s else startVoiceRecording env s)"

text \<open>The two handlers that startVoiceRecording installs on the recorder.\<close>

definition ondataavailable :: "blob \<Rightarrow> state \<Rightarrow> state" where
  "ondataavailable chunk s =
     (if length chunk > 0 then s\<lparr>audioChunks := audioChunks s @ [chunk]\<rparr> else s)"

definition onstop :: "env \<Rightarrow> state \<Rightarrow> state" where
  "onstop env s = processVoiceInput env (concat (audioChunks s)) s"

subsection \<open>Notions used to state the properties\<close>

text \<open>A transport failure: the request rejects, or the response is not a 2xx.\<close>

definition transport_failure :: "'b fetch_result \<Rightarrow> bool" where
  "transport_failure r =
     (case r of FetchRejects \<Rightarrow> True | Response status body \<Rightarrow> \<not> ok status)"

text \<open>
  The classifier as the specification words it: each category has a fixed set of
  keywords, a keyword is looked for as a substring without regard to letter case,
  and the first category that matches, in the order anxiety, stress, depression,
  is chosen, default when none does.
\<close>

definition keywordsOf :: "category \<Rightarrow> string list" where
  "keywordsOf c =
     (case c of
        Anxiety \<Rightarrow> [''anxious'', ''anxiety'', ''worried'']
      | Stress \<Rightarrow> [''stress'', ''overwhelmed'', ''pressure'']
      | Depression \<Rightarrow> [''sad'', ''depressed'', ''hopeless'']
      | Default \<Rightarrow> [])"

definition containsIgnoringCase :: "string \<Rightarrow> string \<Rightarrow> bool" where
  "containsIgnoringCase message kw = sublist (toLowerCase kw) (toLowerCase message)"

definition classify_spec :: "string \<Rightarrow> category" where
  "classify_spec message =
     (case find (\<lambda>c. list_ex (containsIgnoringCase message) (keywordsOf c))
             [Anxiety, Stress, Depression] of
        Some c \<Rightarrow> c
      | None \<Rightarrow> Default)"

text \<open>
  The two shapes in which speechToText reads its body, as total functions: the
  value of the property \<open>text\<close>, and element 0 (the first element of a list, the
  first code unit of a string, the property \<open>"0"\<close> of an object); \<open>undefined\<close> where
  there is none.
\<close>

definition textField :: "jsval \<Rightarrow> jsval" where
  "textField v =
     (case v of
        Obj kvs \<Rightarrow> (case map_of kvs ''text'' of Some t \<Rightarrow> t | None \<Rightarrow> Undefined)
      | _ \<Rightarrow> Undefined)"

definition element0 :: "jsval \<Rightarrow> jsval" where
  "element0 v =
     (case v of
        Arr (x # rest) \<Rightarrow> x
      | Str (c # rest) \<Rightarrow> Str [c]
      | Obj kvs \<Rightarrow> (case map_of kvs ''0'' of Some x \<Rightarrow> x | None \<Rightarrow> Undefined)
      | _ \<Rightarrow> Undefined)"

text \<open>Two environments for the examples: one where every request rejects and the
  browser has no speech facility, one where every request succeeds.\<close>

definition env_offline :: env where
  "env_offline =
     \<lparr>stt = \<lparr>stt_fetch = FetchRejects, recognition = None\<rparr>,
      gen = \<lparr>gen_fetch = FetchRejects, rnd_short = 0, rnd_empty = 0, rnd_catch = 0\<rparr>,
      tts = \<lparr>tts_fetch = FetchRejects, decode_ok = False, has_speechSynthesis = False\<rparr>,
      chat_sink = ChatContainer\<rparr>"

definition env_online :: env where
  "env_online =
     \<lparr>stt = \<lparr>stt_fetch = Response 200 (Some (Obj [(''text'', Str ''I feel anxious'')])),
             recognition = None\<rparr>,
      gen = \<lparr>gen_fetch = Response 200
                 (Some (Arr [Obj [(''generated_text'', Str ''That sounds hard, tell me more about it'')]])),
             rnd_short = 0, rnd_empty = 0, rnd_catch = 0\<rparr>,
      tts = \<lparr>tts_fetch = Response 200 (Some [82, 73, 70, 70]), decode_ok = True,
             has_speechSynthesis = True\<rparr>,
      chat_sink = ChatContainer\<rparr>"

section \<open>Properties\<close>

subsection \<open>Strings and the fallback table\<close>

lemma startsWith_prefix: "startsWith s t \<longleftrightarrow> prefix t s"
  unfolding startsWith_def
  by (metis append_eq_conv_conj prefix_def take_is_prefix)

lemma includes_sublist: "includes_str s t \<longleftrightarrow> sublist t s"
  by (induction s) (auto simp: startsWith_prefix sublist_Cons_right)

lemma endsWith_suffix: "endsWith s t \<longleftrightarrow> suffix t s"
  by (simp add: endsWith_def startsWith_prefix suffix_to_prefix)

text \<open>The test \<open>message.toLowerCase().includes(kw)\<close> finds the keyword written in
  any letter case: some substring of the message lower-cases to it.\<close>

lemma includes_lower:
  "includes_str (toLowerCase message) kw \<longleftrightarrow> (\<exists>w. sublist w message \<and> toLowerCase w = kw)"
  unfolding includes_sublist toLowerCase_def
  by (metis map_mono_sublist sublist_map_rightE)

lemma trim_blank: "list_all isWhiteSpace s \<Longrightarrow> trim s = []"
proof -
  assume "list_all isWhiteSpace s"
  then have d: "dropWhile isWhiteSpace s = []"
    by (simp add: list_all_iff)
  show ?thesis
    unfolding trim_def d by simp
qed

lemma draw_range: "0 \<le> u \<Longrightarrow> u < 1 \<Longrightarrow> 0 \<le> \<lfloor>u * 3\<rfloor> \<and> \<lfloor>u * 3\<rfloor> < (3::int)"
  for u :: rat
  by (simp add: floor_less_iff)

lemma length_responses: "length (responses c) = 3"
  by (cases c) simp_all

lemma responses_long: "r \<in> set (responses c) \<Longrightarrow> 20 \<le> length r"
  by (cases c) auto

text \<open>On a string, with a draw in the range of \<open>Math.random()\<close>, getFallbackResponse
  returns one of the three strings of the message's category.\<close>

lemma getFallbackResponse_Str:
  assumes "0 \<le> u" "u < 1"
  shows "\<exists>r. getFallbackResponse u (Str m) = Inr (Str r)
           \<and> r \<in> set (responses (categoryOf (toLowerCase m)))"
proof -
  let ?rs = "responses (categoryOf (toLowerCase m))"
  let ?i = "\<lfloor>u * 3\<rfloor>"
  from assms have i: "0 \<le> ?i" "?i < 3"
    using draw_range by blast+
  then have "nat ?i < length ?rs"
    unfolding length_responses by linarith
  then have "?rs ! nat ?i \<in> set ?rs"
    by (rule nth_mem)
  moreover have "getFallbackResponse u (Str m) = Inr (Str (?rs ! nat ?i))"
    using i by (simp add: getFallbackResponse_def js_index_def length_responses)
  ultimately show ?thesis by blast
qed

lemma categoryOf_classify_spec: "categoryOf (toLowerCase message) = classify_spec message"
  by (simp add: categoryOf_def classify_spec_def keywordsOf_def containsIgnoringCase_def
      includes_sublist toLowerCase_def lowerChar_def)

subsection \<open>The crisis sentence (C1)\<close>

text \<open>
  Where the remote output, cleaned, has at least 20 characters and the message
  contains \<open>suicide\<close> in any letter case, enhanceResponse returns the cleaned
  output, a full stop added when it has no terminal punctuation, followed by the
  crisis sentence, once.
\<close>

lemma enhanceResponse_crisis:
  assumes "20 \<le> length (cleanResponse a)" "includes_str (toLowerCase m) ''suicide''"
  shows "\<exists>body. enhanceResponse u a (Str m) = Inr (Str (body @ crisisSentence))
            \<and> (body = cleanResponse a \<or> body = cleanResponse a @ ''.'')"
  using assms by (simp add: enhanceResponse_def seriousTopics_def)

text \<open>
  C1. Claimed: for every message that contains \<open>suicide\<close>, the response of
  generateAIResponse ends with the crisis sentence, whether the remote call
  succeeds, returns degenerate output or fails. On the message \<open>suicide\<close>, with a
  request that rejects, generateAIResponse returns the first string of the default
  category, which does not end with the crisis sentence: the \<open>catch\<close> block returns
  what getFallbackResponse gives and the sentence is added in enhanceResponse
  only, after its early return for short output.
\<close>

theorem generateAIResponse_suicide_request_fails:
  "generateAIResponse
     \<lparr>gen_fetch = FetchRejects, rnd_short = 0, rnd_empty = 0, rnd_catch = 0\<rparr>
     (Str ''suicide'')
   = Inr (Str ''I'm here to listen and support you. Can you tell me more about what's on your mind?'')
   \<and> \<not> suffix crisisSentence
          ''I'm here to listen and support you. Can you tell me more about what's on your mind?''"
  by (simp add: generateAIResponse_def generateAIResponse_try_def getFallbackResponse_def
      categoryOf_def toLowerCase_def lowerChar_def startsWith_def js_index_def
      crisisSentence_def suffix_to_prefix)

text \<open>The same on the early return of enhanceResponse: the remote call succeeds
  and its output is \<open>ok\<close>.\<close>

lemma generateAIResponse_suicide_short_output:
  "generateAIResponse
     \<lparr>gen_fetch = Response 200 (Some (Arr [Obj [(''generated_text'', Str ''ok'')]])),
      rnd_short = 0, rnd_empty = 0, rnd_catch = 0\<rparr>
     (Str ''suicide'')
   = Inr (Str ''I'm here to listen and support you. Can you tell me more about what's on your mind?'')"
  by code_simp

text \<open>No string of the fallback table ends with the crisis sentence, so no
  message gets it when the request fails.\<close>

lemma responses_without_crisis: "r \<in> set (responses c) \<Longrightarrow> \<not> suffix crisisSentence r"
  by (cases c) (auto simp: crisisSentence_def suffix_to_prefix)

lemma generateAIResponse_failure_without_crisis:
  assumes "gen_fetch env = FetchRejects" "0 \<le> rnd_catch env" "rnd_catch env < 1"
  shows "\<exists>r. generateAIResponse env (Str message) = Inr (Str r) \<and> \<not> suffix crisisSentence r"
proof -
  from assms(1) have "generateAIResponse env (Str message)
                      = getFallbackResponse (rnd_catch env) (Str message)"
    by (simp add: generateAIResponse_def generateAIResponse_try_def)
  with getFallbackResponse_Str [OF assms(2,3), of message] show ?thesis
    using responses_without_crisis by fastforce
qed

subsection \<open>Short remote output (C2)\<close>

text \<open>
  C2. When the request succeeds and the text extracted from its body, cleaned
  (trimmed, prompt-echo lines removed, trimmed again), has fewer than 20
  characters, generateAIResponse returns one of the strings of the fallback table,
  from the category of the message, and that string is not the cleaned output.
  The draw is a value of \<open>Math.random()\<close>.
\<close>

theorem generateAIResponse_short_output:
  assumes "gen_fetch env = Response status (Some result)" "ok status"
    and "extractGenerated result = Inr (Str output)"
    and "length (cleanResponse (trim output)) < 20"
    and "0 \<le> rnd_short env" "rnd_short env < 1"
  shows "\<exists>r. generateAIResponse env (Str message) = Inr (Str r)
           \<and> r \<in> set (responses (categoryOf (toLowerCase message)))
           \<and> r \<noteq> cleanResponse (trim output)"
proof -
  from getFallbackResponse_Str [OF assms(5,6), of message]
  obtain r where r: "getFallbackResponse (rnd_short env) (Str message) = Inr (Str r)"
    "r \<in> set (responses (categoryOf (toLowerCase message)))"
    by blast
  from assms(4) have "enhanceResponse (rnd_short env) (trim output) (Str message) = Inr (Str r)"
    by (simp add: enhanceResponse_def r)
  moreover from r(2) have "r \<noteq> []"
    using responses_long by fastforce
  ultimately have "generateAIResponse env (Str message) = Inr (Str r)"
    using assms(1-3) by (simp add: generateAIResponse_def generateAIResponse_try_def)
  moreover from r(2) assms(4) have "r \<noteq> cleanResponse (trim output)"
    using responses_long by fastforce
  ultimately show ?thesis using r(2) by blast
qed

theorem generateAIResponse_short_output_witness:
  "ok 200
   \<and> extractGenerated (Arr [Obj [(''generated_text'', Str ''User: hi\<newline> ok '')]])
       = Inr (Str ''User: hi\<newline> ok '')
   \<and> cleanResponse (trim ''User: hi\<newline> ok '') = ''ok''
   \<and> (\<exists>r. generateAIResponse
              \<lparr>gen_fetch = Response 200 (Some (Arr [Obj [(''generated_text'', Str ''User: hi\<newline> ok '')]])),
               rnd_short = 1/2, rnd_empty = 0, rnd_catch = 0\<rparr>
              (Str ''hello'') = Inr (Str r)
          \<and> r \<in> set (responses Default) \<and> r \<noteq> ''ok'')"
proof -
  let ?result = "Arr [Obj [(''generated_text'', Str ''User: hi\<newline> ok '')]]"
  let ?env = "\<lparr>gen_fetch = Response 200 (Some ?result),
               rnd_short = 1/2, rnd_empty = 0, rnd_catch = 0\<rparr>"
  have h1: "gen_fetch ?env = Response 200 (Some ?result)"
    by simp
  have h2: "ok 200"
    by (simp add: ok_def)
  have h3: "extractGenerated ?result = Inr (Str ''User: hi\<newline> ok '')"
    by (simp add: extractGenerated_def arrayHead_def)
  have c: "cleanResponse (trim ''User: hi\<newline> ok '') = ''ok''"
    by code_simp
  have h4: "length (cleanResponse (trim ''User: hi\<newline> ok '')) < 20"
    unfolding c by simp
  have h5: "0 \<le> rnd_short ?env" "rnd_short ?env < 1"
    by simp_all
  have d: "categoryOf (toLowerCase ''hello'') = Default"
    by code_simp
  from generateAIResponse_short_output [OF h1 h2 h3 h4 h5, of "''hello''"] h2 h3 c d
  show ?thesis
    by simp
qed

subsection \<open>Failure of the remote generation call (C3)\<close>

text \<open>
  C3. When the request of generateAIResponse rejects or its response is not a
  2xx, then for every message string the function returns a value (it does not
  throw), and the value is one of the strings of the fallback table, from the
  category of the message.
\<close>

theorem generateAIResponse_transport_failure:
  assumes "transport_failure (gen_fetch env)" "0 \<le> rnd_catch env" "rnd_catch env < 1"
  shows "\<exists>r. generateAIResponse env (Str message) = Inr (Str r)
           \<and> r \<in> set (responses (categoryOf (toLowerCase message)))"
proof -
  from assms(1) have "\<exists>e. generateAIResponse_try env (Str message) = Inl e"
    by (auto simp: transport_failure_def generateAIResponse_try_def split: fetch_result.splits)
  then have "generateAIResponse env (Str message)
             = getFallbackResponse (rnd_catch env) (Str message)"
    by (auto simp: generateAIResponse_def)
  with getFallbackResponse_Str [OF assms(2,3), of message] show ?thesis
    by simp
qed

theorem generateAIResponse_transport_failure_witness:
  "transport_failure (Response 503 (None :: jsval option))
   \<and> (\<exists>r. generateAIResponse
              \<lparr>gen_fetch = Response 503 None, rnd_short = 0, rnd_empty = 0, rnd_catch = 2/3\<rparr>
              (Str ''So much PRESSURE at school'') = Inr (Str r)
          \<and> r \<in> set (responses Stress))"
proof -
  let ?env = "\<lparr>gen_fetch = Response 503 None, rnd_short = 0, rnd_empty = 0, rnd_catch = 2/3\<rparr>"
  have h1: "transport_failure (gen_fetch ?env)"
    by (simp add: transport_failure_def ok_def)
  have h2: "0 \<le> rnd_catch ?env" "rnd_catch ?env < 1"
    by simp_all
  have d: "categoryOf (toLowerCase ''So much PRESSURE at school'') = Stress"
    by code_simp
  from generateAIResponse_transport_failure [OF h1 h2, of "''So much PRESSURE at school''"] h1 d
  show ?thesis
    by simp
qed

subsection \<open>The keyword classifier (C4)\<close>

text \<open>
  C4. For every message string and every draw of \<open>Math.random()\<close>,
  getFallbackResponse returns a value (it never fails), the category is the one
  the specification's first-match classifier gives, whatever the draw, and the
  value is one of the three strings of that category.
\<close>

theorem getFallbackResponse_classify:
  assumes "0 \<le> u" "u < 1"
  shows "\<exists>r. getFallbackResponse u (Str message) = Inr (Str r)
           \<and> r \<in> set (responses (classify_spec message))
           \<and> length (responses (classify_spec message)) = 3"
  using getFallbackResponse_Str [OF assms, of message]
  by (simp add: categoryOf_classify_spec length_responses)

theorem getFallbackResponse_classify_witness:
  "(0::rat) \<le> 1/2 \<and> (1/2::rat) < 1
   \<and> classify_spec ''I am WORRIED and under pressure'' = Anxiety
   \<and> (\<exists>r. getFallbackResponse (1/2) (Str ''I am WORRIED and under pressure'') = Inr (Str r)
           \<and> r \<in> set (responses Anxiety))"
proof -
  have c: "classify_spec ''I am WORRIED and under pressure'' = Anxiety"
    by code_simp
  have h: "(0::rat) \<le> 1/2" "(1/2::rat) < 1"
    by simp_all
  from getFallbackResponse_classify [OF h, of "''I am WORRIED and under pressure''"] c h
  show ?thesis
    by simp
qed

subsection \<open>Failure of the remote speech-to-text call (C5)\<close>

text \<open>
  C5. When the request of speechToText rejects or its response is not a 2xx:
  where the browser has the on-device recognition, speechToText starts it once,
  after the one request, and its outcome is the outcome of speechToText; where it
  has none, speechToText throws, and processVoiceInput ends in its \<open>catch\<close> block:
  the error banner, where the page has one, shows \<open>Failed to process voice input\<close>,
  the chat receives no message and no further request is made.
\<close>

theorem speechToText_failure_fallback_once:
  assumes "transport_failure (stt_fetch (stt env))"
  shows "(case recognition (stt env) of
            Some outcome \<Rightarrow>
              speechToText (stt env) language audioBlob
              = (case outcome of Inl e \<Rightarrow> Inl e | Inr spoken \<Rightarrow> Inr (Str spoken),
                 [FetchSpeechToText audioBlob, RecognitionStart (locale_of language)])
          | None \<Rightarrow>
              (\<exists>e. speechToText (stt env) language audioBlob
                    = (Inl e, [FetchSpeechToText audioBlob]))
              \<and> processVoiceInput env audioBlob s
                  = hideProcessingIndicator
                      (showError ''Failed to process voice input''
                         ((showProcessingIndicator ''Converting speech to text...'' s)
                            \<lparr>calls := calls s @ [FetchSpeechToText audioBlob]\<rparr>))
              \<and> voiceError (processVoiceInput env audioBlob s)
                  = map_option
                      (\<lambda>errorDiv. errorDiv\<lparr>textContent := ''Failed to process voice input'',
                                            display := ''block''\<rparr>)
                      (voiceError s)
              \<and> transcript (processVoiceInput env audioBlob s) = transcript s
              \<and> calls (processVoiceInput env audioBlob s)
                  = calls s @ [FetchSpeechToText audioBlob])"
proof -
  from assms obtain e where e: "speechToText_try (stt env) = Inl e"
    by (auto simp: transport_failure_def speechToText_try_def split: fetch_result.splits)
  show ?thesis
  proof (cases "recognition (stt env)")
    case None
    then have heard:
      "speechToText (stt env) language audioBlob = (Inl e, [FetchSpeechToText audioBlob])"
      for language
      by (simp add: speechToText_def e)
    have run: "processVoiceInput env audioBlob s
               = hideProcessingIndicator
                   (showError ''Failed to process voice input''
                      ((showProcessingIndicator ''Converting speech to text...'' s)
                         \<lparr>calls := calls s @ [FetchSpeechToText audioBlob]\<rparr>))"
      by (simp add: processVoiceInput_def processVoiceInput_catch_def heard Let_def
          showProcessingIndicator_def)
    show ?thesis
      unfolding None option.case run
      by (simp add: heard hideProcessingIndicator_def showError_def showProcessingIndicator_def)
  next
    case (Some outcome)
    then show ?thesis
      by (simp add: speechToText_def e)
  qed
qed

theorem speechToText_failure_fallback_once_witness:
  "transport_failure (stt_fetch (stt env_offline))
   \<and> recognition (stt env_offline) = None
   \<and> voiceError (processVoiceInput env_offline [1, 2] new_controller)
       = Some \<lparr>textContent = ''Failed to process voice input'', display = ''block''\<rparr>
   \<and> transcript (processVoiceInput env_offline [1, 2] new_controller) = []
   \<and> calls (processVoiceInput env_offline [1, 2] new_controller) = [FetchSpeechToText [1, 2]]"
proof -
  have h: "transport_failure (stt_fetch (stt env_offline))"
    by (simp add: env_offline_def transport_failure_def)
  have n: "recognition (stt env_offline) = None"
    by (simp add: env_offline_def)
  from speechToText_failure_fallback_once [OF h, of "''en''" "[1, 2]" new_controller] h n
  show ?thesis
    by (simp add: new_controller_def hideProcessingIndicator_def showError_def
        showProcessingIndicator_def)
qed

subsection \<open>The processing indicator (C6)\<close>

lemma keep_presence: "map_option (\<lambda>x. c) (map_option f v) = map_option (\<lambda>x. c) v"
  by (cases v) simp_all

lemma indicator_show [simp]:
  "processingIndicator (showProcessingIndicator m s)
   = map_option (\<lambda>indicator. indicator\<lparr>textContent := m, display := ''block''\<rparr>)
       (processingIndicator s)"
  by (simp add: showProcessingIndicator_def)

lemma indicator_showError [simp]: "processingIndicator (showError m s) = processingIndicator s"
  by (simp add: showError_def)

lemma indicator_addMessageToChat:
  "addMessageToChat sink t sd s = Inr s' \<Longrightarrow> processingIndicator s' = processingIndicator s"
  by (auto simp: addMessageToChat_def split: chat_sink.splits if_splits)

lemma indicator_textToSpeech [simp]:
  "processingIndicator (textToSpeech env t s) = processingIndicator s"
  by (simp add: textToSpeech_def playAudioBuffer_def fallbackTextToSpeech_def
      updatePlaybackUI_def Let_def split: fetch_result.splits option.splits)

lemma indicator_hidden:
  "map_option display (processingIndicator (hideProcessingIndicator s))
   = map_option (\<lambda>x. ''none'') (processingIndicator s)"
  by (cases "processingIndicator s") (simp_all add: hideProcessingIndicator_def)

lemma processVoiceInput_hides:
  "map_option display (processingIndicator (processVoiceInput env audioBlob s))
   = map_option (\<lambda>x. ''none'') (processingIndicator s)"
  unfolding processVoiceInput_def processVoiceInput_catch_def Let_def
  by (auto simp: indicator_hidden keep_presence dest!: indicator_addMessageToChat
      split: sum.splits)

lemma sendTextMessage_hides:
  "trim message \<noteq> [] \<Longrightarrow>
   map_option display (processingIndicator (sendTextMessage env message s))
   = map_option (\<lambda>x. ''none'') (processingIndicator s)"
  unfolding sendTextMessage_def sendTextMessage_catch_def Let_def
  by (auto simp: indicator_hidden keep_presence dest!: indicator_addMessageToChat
      split: sum.splits)

text \<open>
  C6. At the end of every run of processVoiceInput, and of every run of
  sendTextMessage on a message that is not blank, the processing indicator, where
  the page has one, has the display \<open>none\<close>: on the path where every stage succeeds
  and on every path through a \<open>catch\<close> block.
\<close>

theorem processing_indicator_hidden:
  assumes "trim message \<noteq> []"
  shows "map_option display (processingIndicator (processVoiceInput env audioBlob s))
         = map_option (\<lambda>x. ''none'') (processingIndicator s)
         \<and> map_option display (processingIndicator (sendTextMessage env message s))
           = map_option (\<lambda>x. ''none'') (processingIndicator s)"
  using assms by (simp add: processVoiceInput_hides sendTextMessage_hides)

theorem processing_indicator_hidden_witness:
  "trim ''hello'' \<noteq> []
   \<and> map_option display (processingIndicator (processVoiceInput env_online [1, 2] new_controller))
     = Some ''none''
   \<and> map_option display (processingIndicator (sendTextMessage env_online ''hello'' new_controller))
     = Some ''none''"
proof -
  have h: "trim ''hello'' \<noteq> []"
    by (simp add: trim_def isWhiteSpace_def)
  from processing_indicator_hidden [OF h, of env_online "[1, 2]" new_controller] h
  show ?thesis
    by (simp add: new_controller_def)
qed

subsection \<open>Blank text input (C7)\<close>

text \<open>
  C7. On a message that is empty or has white space only, sendTextMessage returns
  the state it was given: no chat message, no call, no change of a field of the
  controller or of a page element.
\<close>

theorem sendTextMessage_blank_noop:
  "list_all isWhiteSpace message \<Longrightarrow> sendTextMessage env message s = s"
  by (simp add: sendTextMessage_def trim_blank)

theorem sendTextMessage_blank_noop_witness:
  "list_all isWhiteSpace ''   ''
   \<and> sendTextMessage env_online ''   '' new_controller = new_controller
   \<and> sendTextMessage env_online [] new_controller = new_controller"
proof -
  have h: "list_all isWhiteSpace ''   ''" "list_all isWhiteSpace []"
    by (simp_all add: isWhiteSpace_def)
  from sendTextMessage_blank_noop [OF h(1), of env_online new_controller]
    sendTextMessage_blank_noop [OF h(2), of env_online new_controller] h(1)
  show ?thesis
    by simp
qed

subsection \<open>The extraction of the transcription (C8)\<close>

text \<open>
  C8 as claimed: for every body, speechToText returns the top-level \<open>text\<close> field
  when present, else the \<open>text\<close> field of the first element of a list, else the
  empty string, and the absence of both shapes is no error. It fails on the body
  \<open>{"text": "", "0": {"text": "hi"}}\<close>, where the top-level field is present and
  empty and the body is not a list, and speechToText returns \<open>hi\<close>; and on the
  body \<open>null\<close>, where reading \<open>result.text\<close> throws.
\<close>

theorem speechToText_extraction_counterexample:
  "speechToText
     \<lparr>stt_fetch = Response 200
        (Some (Obj [(''text'', Str []), (''0'', Obj [(''text'', Str ''hi'')])])),
      recognition = None\<rparr> ''en'' []
   = (Inr (Str ''hi''), [FetchSpeechToText []])
   \<and> speechToText \<lparr>stt_fetch = Response 200 (Some Null), recognition = None\<rparr> ''en'' []
     = (Inl TypeError, [FetchSpeechToText []])"
  by (simp add: speechToText_def speechToText_try_def extractText_def ok_def js_or_def)

text \<open>
  C8, amended. For every body other than \<open>null\<close> of a 2xx response, speechToText
  returns, without an error and without a second call: the top-level \<open>text\<close> value
  when it is truthy; else the \<open>text\<close> value of element 0 of the body when element 0
  and that value are truthy; else the empty string.
\<close>

theorem speechToText_extraction:
  assumes "stt_fetch env = Response status (Some result)" "ok status"
    and "result \<noteq> Null" "result \<noteq> Undefined"
  shows "speechToText env language audioBlob
         = (Inr (if truthy (textField result) then textField result
                 else if truthy (element0 result) \<and> truthy (textField (element0 result))
                 then textField (element0 result)
                 else Str []),
            [FetchSpeechToText audioBlob])"
proof -
  have p: "get_prop v ''text'' = Inr (textField v)" if "v \<noteq> Null" "v \<noteq> Undefined" for v
    using that by (cases v) (simp_all add: textField_def split: option.splits)
  have i: "get_index0 result = Inr (element0 result)"
    using assms(3,4)
    by (cases result) (simp_all add: element0_def split: option.splits list.splits)
  have t: "truthy v \<Longrightarrow> v \<noteq> Null \<and> v \<noteq> Undefined" for v
    by auto
  have "extractText result
        = Inr (if truthy (textField result) then textField result
               else if truthy (element0 result) \<and> truthy (textField (element0 result))
               then textField (element0 result)
               else Str [])"
    using t [of "element0 result"]
    by (simp add: extractText_def p [OF assms(3,4)] i p js_or_def)
  then show ?thesis
    using assms(1,2) by (simp add: speechToText_def speechToText_try_def)
qed

theorem speechToText_extraction_witness:
  "ok 200
   \<and> speechToText
       \<lparr>stt_fetch = Response 200 (Some (Arr [Obj [(''text'', Str ''I feel anxious'')]])),
        recognition = None\<rparr> ''en'' [1, 2]
     = (Inr (Str ''I feel anxious''), [FetchSpeechToText [1, 2]])"
proof -
  let ?result = "Arr [Obj [(''text'', Str ''I feel anxious'')]]"
  let ?env = "\<lparr>stt_fetch = Response 200 (Some ?result), recognition = None\<rparr>"
  have h1: "stt_fetch ?env = Response 200 (Some ?result)"
    by simp
  have h2: "ok 200"
    by (simp add: ok_def)
  have h3: "?result \<noteq> Null" "?result \<noteq> Undefined"
    by simp_all
  from speechToText_extraction [OF h1 h2 h3, of "''en''" "[1, 2]"] h2
  show ?thesis
    by (simp add: textField_def element0_def)
qed

subsection \<open>The audio buffer (C9)\<close>

lemma audioChunks_initializeAudio [simp]: "audioChunks (initializeAudio m s) = audioChunks s"
  by (simp add: initializeAudio_def showError_def split: mic_outcome.splits)

lemma audioChunks_start: "audioChunks (startVoiceRecording env s) = []"
  by (simp add: startVoiceRecording_def Let_def showError_def updateVoiceUI_def
      split: recorder_outcome.splits)

lemma audioChunks_fold:
  "audioChunks (fold ondataavailable chunks s)
   = audioChunks s @ filter (\<lambda>chunk. length chunk > 0) chunks"
  by (induction chunks arbitrary: s) (simp_all add: ondataavailable_def)

text \<open>
  C9. From every state, also one where a recording is in progress and the buffer
  holds chunks, startVoiceRecording leaves the buffer empty, and after the chunks
  delivered from then on the buffer holds exactly those of them that are not
  empty, in order.
\<close>

theorem startVoiceRecording_resets_buffer:
  "audioChunks (startVoiceRecording env s) = []
   \<and> audioChunks (fold ondataavailable chunks (startVoiceRecording env s))
       = filter (\<lambda>chunk. length chunk > 0) chunks"
  by (simp add: audioChunks_fold audioChunks_start)

theorem startVoiceRecording_resets_buffer_witness:
  "audioChunks
     (fold ondataavailable [[3], [], [4]]
        (startVoiceRecording \<lparr>mic = Granted, recorder = Started\<rparr>
           (new_controller\<lparr>stream := True, isListening := True, mediaRecorder := Some 0,
              recorders := 1, audioChunks := [[1], [2]]\<rparr>)))
   = [[3], [4]]"
  using startVoiceRecording_resets_buffer
    [of "\<lparr>mic = Granted, recorder = Started\<rparr>"
        "new_controller\<lparr>stream := True, isListening := True, mediaRecorder := Some 0,
           recorders := 1, audioChunks := [[1], [2]]\<rparr>"
        "[[3], [], [4]]"]
  by simp

subsection \<open>Stopping without a recording (C10)\<close>

text \<open>
  C10. Where the controller has no recorder or is not listening,
  stopVoiceRecording returns the state it was given: the listening flag, the
  buffer and the page are unchanged and the recorder is not stopped, so that its
  \<open>onstop\<close> handler, which starts processVoiceInput, does not run.
\<close>

theorem stopVoiceRecording_idle_noop:
  "mediaRecorder s = None \<or> \<not> isListening s \<Longrightarrow> stopVoiceRecording s = s"
  by (auto simp: stopVoiceRecording_def split: option.splits)

theorem stopVoiceRecording_idle_noop_witness:
  "mediaRecorder new_controller = None \<and> stopVoiceRecording new_controller = new_controller"
proof -
  have h: "mediaRecorder new_controller = None"
    by (simp add: new_controller_def)
  from stopVoiceRecording_idle_noop [of new_controller] h show ?thesis
    by simp
qed

end
